theory Spec2Isabelle
  imports Main
begin

section \<open>Go strings and bytes\<close>

text \<open>
  A Go \<^verbatim>\<open>string\<close> is a sequence of bytes. It is modelled as a \<^typ>\<open>string\<close>, one
  \<^typ>\<open>char\<close> per byte; \<^verbatim>\<open>[]byte(s)\<close> reads the bytes as numbers below 256.
\<close>

definition bytes :: "string \<Rightarrow> nat list" where
  "bytes s = map of_char s"

definition string_of :: "nat list \<Rightarrow> string" where
  "string_of bs = map char_of bs"

subsection \<open>unicode/utf8\<close>

text \<open>
  \<^verbatim>\<open>utf8.DecodeRuneInString\<close> and \<^verbatim>\<open>utf8.AppendRune\<close> of the Go standard library.
  \<open>first_size\<close> is the length that the table \<^verbatim>\<open>first\<close> gives a leading byte (1 for
  ASCII, 0 for a byte that cannot start a sequence); \<open>accept_lo\<close> and \<open>accept_hi\<close> are
  the \<^verbatim>\<open>acceptRanges\<close> of the second byte.
\<close>

definition RuneError :: nat where
  "RuneError = 0xFFFD"

definition first_size :: "nat \<Rightarrow> nat" where
  "first_size s0 =
     (if s0 < 0x80 then 1
      else if 0xC2 \<le> s0 \<and> s0 \<le> 0xDF then 2
      else if 0xE0 \<le> s0 \<and> s0 \<le> 0xEF then 3
      else if 0xF0 \<le> s0 \<and> s0 \<le> 0xF4 then 4
      else 0)"

definition accept_lo :: "nat \<Rightarrow> nat" where
  "accept_lo s0 = (if s0 = 0xE0 then 0xA0 else if s0 = 0xF0 then 0x90 else 0x80)"

definition accept_hi :: "nat \<Rightarrow> nat" where
  "accept_hi s0 = (if s0 = 0xED then 0x9F else if s0 = 0xF4 then 0x8F else 0xBF)"

definition DecodeRune :: "nat list \<Rightarrow> nat \<times> nat" where
  "DecodeRune s =
     (if length s < 1 then (RuneError, 0)
      else if first_size (s ! 0) = 1 then (s ! 0, 1)
      else if first_size (s ! 0) = 0 then (RuneError, 1)
      else if length s < first_size (s ! 0) then (RuneError, 1)
      else if s ! 1 < accept_lo (s ! 0) \<or> accept_hi (s ! 0) < s ! 1 then (RuneError, 1)
      else if first_size (s ! 0) \<le> 2 then ((s ! 0 mod 32) * 64 + s ! 1 mod 64, 2)
      else if s ! 2 < 0x80 \<or> 0xBF < s ! 2 then (RuneError, 1)
      else if first_size (s ! 0) \<le> 3
        then ((s ! 0 mod 16) * 4096 + (s ! 1 mod 64) * 64 + s ! 2 mod 64, 3)
      else if s ! 3 < 0x80 \<or> 0xBF < s ! 3 then (RuneError, 1)
      else ((s ! 0 mod 8) * 262144 + (s ! 1 mod 64) * 4096 + (s ! 2 mod 64) * 64
              + s ! 3 mod 64, 4))"

definition EncodeRune :: "nat \<Rightarrow> nat list" where
  "EncodeRune r =
     (if r \<le> 0x7F then [r]
      else if r \<le> 0x7FF then [0xC0 + r div 64, 0x80 + r mod 64]
      else if 0x10FFFF < r \<or> (0xD800 \<le> r \<and> r \<le> 0xDFFF) then [0xEF, 0xBF, 0xBD]
      else if r \<le> 0xFFFF
        then [0xE0 + r div 4096, 0x80 + r div 64 mod 64, 0x80 + r mod 64]
      else [0xF0 + r div 262144, 0x80 + r div 4096 mod 64, 0x80 + r div 64 mod 64,
            0x80 + r mod 64])"

subsection \<open>strings.ToLower\<close>

text \<open>
  \<^verbatim>\<open>strings.ToLower\<close> lower-cases an all-ASCII string byte by byte; any other
  string goes through \<^verbatim>\<open>strings.Map(unicode.ToLower, s)\<close>, which decodes the runes
  (a byte that is not valid UTF-8 decodes as \<^verbatim>\<open>RuneError\<close> of width 1), maps each and
  encodes the results. \<^verbatim>\<open>unicode.ToLower\<close> handles ASCII in code and looks every
  other rune up in the Unicode case tables, which are data of the Go distribution:
  they are the parameter \<open>tbl\<close> here, consulted only for runes above U+007F.
\<close>

fun isASCII :: "nat list \<Rightarrow> bool" where
  "isASCII [] = True"
| "isASCII (c # s) = (c < 0x80 \<and> isASCII s)"

definition lowerASCII :: "nat \<Rightarrow> nat" where
  "lowerASCII c = (if 0x41 \<le> c \<and> c \<le> 0x5A then c + 0x20 else c)"

definition unicode_ToLower :: "(nat \<Rightarrow> nat) \<Rightarrow> nat \<Rightarrow> nat" where
  "unicode_ToLower tbl r =
     (if r \<le> 0x7F then (if 0x41 \<le> r \<and> r \<le> 0x5A then r + 0x20 else r) else tbl r)"

lemma DecodeRune_width: "s \<noteq> [] \<Longrightarrow> 1 \<le> snd (DecodeRune s)"
  by (cases s) (auto simp: DecodeRune_def)

function Map_runes :: "(nat \<Rightarrow> nat) \<Rightarrow> nat list \<Rightarrow> nat list" where
  "Map_runes mapping s =
     (if s = [] then []
      else EncodeRune (mapping (fst (DecodeRune s)))
             @ Map_runes mapping (drop (snd (DecodeRune s)) s))"
  by pat_completeness auto
termination
proof (relation "measure (\<lambda>(mapping, s). length s)")
  show "wf (measure (\<lambda>(mapping, s). length s))"
    by simp
next
  fix mapping :: "nat \<Rightarrow> nat" and s :: "nat list"
  assume "s \<noteq> []"
  then have "1 \<le> snd (DecodeRune s)" and "0 < length s"
    using DecodeRune_width [of s] by simp_all
  then show "((mapping, drop (snd (DecodeRune s)) s), (mapping, s))
               \<in> measure (\<lambda>(mapping, s). length s)"
    by simp
qed

declare Map_runes.simps [simp del]

definition ToLower_bytes :: "(nat \<Rightarrow> nat) \<Rightarrow> nat list \<Rightarrow> nat list" where
  "ToLower_bytes tbl s =
     (if isASCII s then map lowerASCII s else Map_runes (unicode_ToLower tbl) s)"

definition ToLower :: "(nat \<Rightarrow> nat) \<Rightarrow> string \<Rightarrow> string" where
  "ToLower tbl s = string_of (ToLower_bytes tbl (bytes s))"

section \<open>crypto/md5 and encoding/hex\<close>

text \<open>
  \<^verbatim>\<open>md5.Sum\<close> is MD5 as in RFC 1321, on 32-bit words kept as natural numbers
  with the wrap-around written out (\<open>u32\<close>): the message is padded with \<^verbatim>\<open>0x80\<close>,
  zeros and its length in bits (64 bits, little endian) to a multiple of 64 bytes;
  each block of sixteen little-endian words goes through four rounds of sixteen
  steps; the digest is the four state words, little endian.
\<close>

definition u32 :: "nat \<Rightarrow> nat" where
  "u32 x = x mod 4294967296"

definition not32 :: "nat \<Rightarrow> nat" where
  "not32 x = 4294967295 - u32 x"

definition RotateLeft32 :: "nat \<Rightarrow> nat \<Rightarrow> nat" where
  "RotateLeft32 x n = or (u32 (push_bit n x)) (drop_bit (32 - n) x)"

type_synonym md5_state = "nat \<times> nat \<times> nat \<times> nat"

text \<open>
  The four rounds of the block function, as the unrolled code of \<^verbatim>\<open>md5block.go\<close> has
  them: every step names the message word it reads, its sine constant and its
  rotation.
\<close>

definition md5_F :: "nat \<Rightarrow> nat \<Rightarrow> nat \<Rightarrow> nat" where
  "md5_F b c d = or (and b c) (and (not32 b) d)"

definition md5_G :: "nat \<Rightarrow> nat \<Rightarrow> nat \<Rightarrow> nat" where
  "md5_G b c d = or (and d b) (and (not32 d) c)"

definition md5_H :: "nat \<Rightarrow> nat \<Rightarrow> nat \<Rightarrow> nat" where
  "md5_H b c d = xor (xor b c) d"

definition md5_I :: "nat \<Rightarrow> nat \<Rightarrow> nat \<Rightarrow> nat" where
  "md5_I b c d = xor c (or b (not32 d))"

definition round1 :: "(nat \<times> nat \<times> nat) list" where
  "round1 =
    [(0, 0xd76aa478, 7), (1, 0xe8c7b756, 12), (2, 0x242070db, 17), (3, 0xc1bdceee, 22),
     (4, 0xf57c0faf, 7), (5, 0x4787c62a, 12), (6, 0xa8304613, 17), (7, 0xfd469501, 22),
     (8, 0x698098d8, 7), (9, 0x8b44f7af, 12), (10, 0xffff5bb1, 17), (11, 0x895cd7be, 22),
     (12, 0x6b901122, 7), (13, 0xfd987193, 12), (14, 0xa679438e, 17), (15, 0x49b40821, 22)]"

definition round2 :: "(nat \<times> nat \<times> nat) list" where
  "round2 =
    [(1, 0xf61e2562, 5), (6, 0xc040b340, 9), (11, 0x265e5a51, 14), (0, 0xe9b6c7aa, 20),
     (5, 0xd62f105d, 5), (10, 0x02441453, 9), (15, 0xd8a1e681, 14), (4, 0xe7d3fbc8, 20),
     (9, 0x21e1cde6, 5), (14, 0xc33707d6, 9), (3, 0xf4d50d87, 14), (8, 0x455a14ed, 20),
     (13, 0xa9e3e905, 5), (2, 0xfcefa3f8, 9), (7, 0x676f02d9, 14), (12, 0x8d2a4c8a, 20)]"

definition round3 :: "(nat \<times> nat \<times> nat) list" where
  "round3 =
    [(5, 0xfffa3942, 4), (8, 0x8771f681, 11), (11, 0x6d9d6122, 16), (14, 0xfde5380c, 23),
     (1, 0xa4beea44, 4), (4, 0x4bdecfa9, 11), (7, 0xf6bb4b60, 16), (10, 0xbebfbc70, 23),
     (13, 0x289b7ec6, 4), (0, 0xeaa127fa, 11), (3, 0xd4ef3085, 16), (6, 0x04881d05, 23),
     (9, 0xd9d4d039, 4), (12, 0xe6db99e5, 11), (15, 0x1fa27cf8, 16), (2, 0xc4ac5665, 23)]"

definition round4 :: "(nat \<times> nat \<times> nat) list" where
  "round4 =
    [(0, 0xf4292244, 6), (7, 0x432aff97, 10), (14, 0xab9423a7, 15), (5, 0xfc93a039, 21),
     (12, 0x655b59c3, 6), (3, 0x8f0ccc92, 10), (10, 0xffeff47d, 15), (1, 0x85845dd1, 21),
     (8, 0x6fa87e4f, 6), (15, 0xfe2ce6e0, 10), (6, 0xa3014314, 15), (13, 0x4e0811a1, 21),
     (4, 0xf7537e82, 6), (11, 0xbd3af235, 10), (2, 0x2ad7d2bb, 15), (9, 0xeb86d391, 21)]"

fun md5_round ::
  "(nat \<Rightarrow> nat \<Rightarrow> nat \<Rightarrow> nat) \<Rightarrow> nat list \<Rightarrow> (nat \<times> nat \<times> nat) list \<Rightarrow> md5_state \<Rightarrow> md5_state"
where
  "md5_round f x [] s = s"
| "md5_round f x ((g, k, r) # steps) (a, b, c, d) =
     md5_round f x steps (d, u32 (b + RotateLeft32 (u32 (f b c d + a + k + x ! g)) r), b, c)"

fun le32 :: "nat list \<Rightarrow> nat" where
  "le32 [b0, b1, b2, b3] = b0 + 256 * b1 + 65536 * b2 + 16777216 * b3"
| "le32 _ = 0"

function chunks :: "nat \<Rightarrow> 'a list \<Rightarrow> 'a list list" where
  "chunks n xs = (if n = 0 \<or> xs = [] then [] else take n xs # chunks n (drop n xs))"
  by pat_completeness auto
termination
  by (relation "measure (\<lambda>(n, xs). length xs)") auto

declare chunks.simps [simp del]

fun md5_add :: "md5_state \<Rightarrow> md5_state \<Rightarrow> md5_state" where
  "md5_add (a, b, c, d) (a', b', c', d') =
     (u32 (a + a'), u32 (b + b'), u32 (c + c'), u32 (d + d'))"

definition md5_block :: "md5_state \<Rightarrow> nat list \<Rightarrow> md5_state" where
  "md5_block s blk =
     md5_add s
       (md5_round md5_I (map le32 (chunks 4 blk)) round4
         (md5_round md5_H (map le32 (chunks 4 blk)) round3
           (md5_round md5_G (map le32 (chunks 4 blk)) round2
             (md5_round md5_F (map le32 (chunks 4 blk)) round1 s))))"

definition put32 :: "nat \<Rightarrow> nat list" where
  "put32 w = [w mod 256, w div 256 mod 256, w div 65536 mod 256, w div 16777216 mod 256]"

definition put64 :: "nat \<Rightarrow> nat list" where
  "put64 w = put32 (u32 w) @ put32 (u32 (w div 4294967296))"

definition md5_pad :: "nat list \<Rightarrow> nat list" where
  "md5_pad m =
     m @ [0x80] @ replicate ((119 - length m mod 64) mod 64) 0 @ put64 (8 * length m)"

fun md5_out :: "md5_state \<Rightarrow> nat list" where
  "md5_out (a, b, c, d) = put32 a @ put32 b @ put32 c @ put32 d"

definition md5_Sum :: "nat list \<Rightarrow> nat list" where
  "md5_Sum m =
     md5_out (foldl md5_block (0x67452301, 0xefcdab89, 0x98badcfe, 0x10325476)
                (chunks 64 (md5_pad m)))"

text \<open>\<^verbatim>\<open>hex.EncodeToString\<close>: two digits of \<^verbatim>\<open>hextable\<close> per byte, high nibble first.\<close>

definition hextable :: string where
  "hextable = ''0123456789abcdef''"

definition hexbyte :: "nat \<Rightarrow> string" where
  "hexbyte v = [hextable ! (v div 16), hextable ! (v mod 16)]"

definition EncodeToString :: "nat list \<Rightarrow> string" where
  "EncodeToString src = concat (map hexbyte src)"

section \<open>The client and its signer\<close>

record AqaraClient =
  region :: string
  appID :: string
  keyID :: string
  appKey :: string
  account :: string
  accessToken :: string
  refreshToken :: string
  debug :: bool

definition New :: "string \<Rightarrow> string \<Rightarrow> string \<Rightarrow> string \<Rightarrow> string \<Rightarrow> bool \<Rightarrow> AqaraClient" where
  "New rgn app key secret acct dbg =
     \<lparr>region = rgn, appID = app, keyID = key, appKey = secret, account = acct,
      accessToken = '''', refreshToken = '''', debug = dbg\<rparr>"

text \<open>
  \<^verbatim>\<open>sign\<close>: \<^verbatim>\<open>fmt.Sprintf\<close> with \<^verbatim>\<open>%s\<close> verbs only is concatenation; then
  \<^verbatim>\<open>strings.ToLower\<close>, \<^verbatim>\<open>md5.Sum\<close> of the bytes and \<^verbatim>\<open>hex.EncodeToString\<close>.
\<close>

definition sign :: "(nat \<Rightarrow> nat) \<Rightarrow> AqaraClient \<Rightarrow> string \<Rightarrow> string \<Rightarrow> string \<Rightarrow> string" where
  "sign tbl a token nonce timestamp =
     EncodeToString (md5_Sum (bytes (ToLower tbl
       (if length token \<noteq> 0
        then ''Accesstoken='' @ token @ ''&Appid='' @ appID a @ ''&Keyid='' @ keyID a
               @ ''&Nonce='' @ nonce @ ''&Time='' @ timestamp @ appKey a
        else ''Appid='' @ appID a @ ''&Keyid='' @ keyID a
               @ ''&Nonce='' @ nonce @ ''&Time='' @ timestamp @ appKey a))))"

section \<open>encoding/json\<close>

text \<open>
  A JSON document. \<open>JInt n\<close> is a number literal without fraction or exponent,
  \<open>JNumber\<close> any other number literal, kept as its text. An object keeps its members
  in the order of the text, duplicates included, since the decoder visits them in
  that order.
\<close>

datatype json =
    JNull
  | JBool bool
  | JInt int
  | JNumber string
  | JString string
  | JArray "json list"
  | JObject "(string \<times> json) list"

text \<open>
  Errors are values. \<open>LibError\<close> stands for an error of a library call that the model
  leaves to the environment (the transport, the URL parser); \<open>SyntaxError\<close> and
  \<open>UnmarshalTypeError\<close> (the offending value and the field) are those of
  \<^verbatim>\<open>json.Unmarshal\<close>; \<open>Errorf\<close> keeps the format and the arguments of \<^verbatim>\<open>fmt.Errorf\<close>.
\<close>

datatype val = VString string | VInt int

datatype error =
    LibError string
  | SyntaxError
  | UnmarshalTypeError json string
  | Errorf string "val list"

subsection \<open>Matching an object key with a struct field\<close>

text \<open>
  The decoder takes the field whose name is the key, and failing that the field whose
  name equals the key under \<^verbatim>\<open>foldName\<close>: ASCII letters are folded in code, every
  other rune through Unicode's simple case folding, which is data of the Go
  distribution and the parameter \<open>tbl\<close> here (consulted only above U+007F).
\<close>

definition foldRune :: "(nat \<Rightarrow> nat) \<Rightarrow> nat \<Rightarrow> nat" where
  "foldRune tbl r =
     (if r < 0x80 then (if 0x61 \<le> r \<and> r \<le> 0x7A then r - 0x20 else r) else tbl r)"

definition foldName :: "(nat \<Rightarrow> nat) \<Rightarrow> string \<Rightarrow> nat list" where
  "foldName tbl name = Map_runes (foldRune tbl) (bytes name)"

definition fieldFor :: "(nat \<Rightarrow> nat) \<Rightarrow> string list \<Rightarrow> string \<Rightarrow> string option" where
  "fieldFor tbl names key =
     (if key \<in> set names then Some key
      else find (\<lambda>n. foldName tbl n = foldName tbl key) names)"

subsection \<open>Storing a value in a field\<close>

text \<open>
  \<^verbatim>\<open>null\<close> leaves a string or an integer as it is. A value of another kind leaves it
  as it is too and is a type error; the decoder keeps the first such error and goes on.
  An \<^verbatim>\<open>int\<close> takes a number literal that \<^verbatim>\<open>strconv.ParseInt\<close> reads in 64 bits.
\<close>

fun store_string :: "json \<Rightarrow> string \<Rightarrow> string" where
  "store_string (JString s) old = s"
| "store_string v old = old"

fun string_ok :: "json \<Rightarrow> bool" where
  "string_ok (JString s) = True"
| "string_ok JNull = True"
| "string_ok v = False"

definition int64 :: "int \<Rightarrow> bool" where
  "int64 n = (- 9223372036854775808 \<le> n \<and> n \<le> 9223372036854775807)"

fun store_int :: "json \<Rightarrow> int \<Rightarrow> int" where
  "store_int (JInt n) old = (if int64 n then n else old)"
| "store_int v old = old"

fun int_ok :: "json \<Rightarrow> bool" where
  "int_ok (JInt n) = int64 n"
| "int_ok JNull = True"
| "int_ok v = False"

text \<open>
  Decoding the members of an object into a struct whose fields are \<open>names\<close>: \<open>store\<close>
  stores a value in a field, \<open>fits\<close> tells whether the value fits the field. Members
  that match no field are skipped.
\<close>

fun decode_members ::
  "(nat \<Rightarrow> nat) \<Rightarrow> string list \<Rightarrow> (string \<Rightarrow> json \<Rightarrow> 'r \<Rightarrow> 'r) \<Rightarrow> (string \<Rightarrow> json \<Rightarrow> bool)
     \<Rightarrow> (string \<times> json) list \<Rightarrow> 'r \<times> error option \<Rightarrow> 'r \<times> error option"
where
  "decode_members tbl names store fits [] acc = acc"
| "decode_members tbl names store fits ((key, v) # members) (r, err) =
     (case fieldFor tbl names key of
        None \<Rightarrow> decode_members tbl names store fits members (r, err)
      | Some f \<Rightarrow>
          decode_members tbl names store fits members
            (store f v r,
             (if err = None \<and> \<not> fits f v then Some (UnmarshalTypeError v f) else err)))"

fun decode_struct ::
  "(nat \<Rightarrow> nat) \<Rightarrow> string list \<Rightarrow> (string \<Rightarrow> json \<Rightarrow> 'r \<Rightarrow> 'r) \<Rightarrow> (string \<Rightarrow> json \<Rightarrow> bool)
     \<Rightarrow> json \<Rightarrow> 'r \<Rightarrow> 'r \<times> error option"
where
  "decode_struct tbl names store fits JNull r = (r, None)"
| "decode_struct tbl names store fits (JObject members) r =
     decode_members tbl names store fits members (r, None)"
| "decode_struct tbl names store fits v r = (r, Some (UnmarshalTypeError v []))"

section \<open>The API client\<close>

subsection \<open>Envelopes\<close>

text \<open>
  \<^verbatim>\<open>AqaraRequest.Data\<close> is one of three structs of strings, integers and a string
  slice; it is kept as the JSON document that \<^verbatim>\<open>json.Marshal\<close> writes for it, and
  marshalling such a struct does not fail. \<^verbatim>\<open>AqaraResponse.Result\<close> is a
  \<^verbatim>\<open>json.RawMessage\<close>: the text of a JSON value, kept as that value, \<open>None\<close> when nil.
\<close>

record AqaraRequest =
  Intent :: string
  Data :: json

record AqaraResponse =
  Code :: int
  RequestID :: string
  Message :: string
  MessageDetail :: string
  Result :: "json option"

definition AqaraResponse_zero :: AqaraResponse where
  "AqaraResponse_zero =
     \<lparr>Code = 0, RequestID = [], Message = [], MessageDetail = [], Result = None\<rparr>"

definition Marshal :: "AqaraRequest \<Rightarrow> json" where
  "Marshal q = JObject [(''intent'', JString (Intent q)), (''data'', Data q)]"

definition AqaraResponse_fields :: "string list" where
  "AqaraResponse_fields = [''code'', ''requestId'', ''message'', ''messageDetail'', ''result'']"

definition AqaraResponse_set :: "string \<Rightarrow> json \<Rightarrow> AqaraResponse \<Rightarrow> AqaraResponse" where
  "AqaraResponse_set f v r =
     (if f = ''code'' then r\<lparr>Code := store_int v (Code r)\<rparr>
      else if f = ''requestId'' then r\<lparr>RequestID := store_string v (RequestID r)\<rparr>
      else if f = ''message'' then r\<lparr>Message := store_string v (Message r)\<rparr>
      else if f = ''messageDetail'' then r\<lparr>MessageDetail := store_string v (MessageDetail r)\<rparr>
      else if f = ''result'' then r\<lparr>Result := Some v\<rparr>
      else r)"

definition AqaraResponse_ok :: "string \<Rightarrow> json \<Rightarrow> bool" where
  "AqaraResponse_ok f v =
     (if f = ''code'' then int_ok v else if f = ''result'' then True else string_ok v)"

text \<open>
  A response body is the text of a JSON document, kept as the document, or some other
  text. \<^verbatim>\<open>json.Unmarshal\<close> checks the syntax of the whole text before it stores
  anything.
\<close>

datatype http_body = NotJSON string | JSON json

fun Unmarshal_AqaraResponse ::
  "(nat \<Rightarrow> nat) \<Rightarrow> http_body \<Rightarrow> AqaraResponse \<Rightarrow> AqaraResponse \<times> error option"
where
  "Unmarshal_AqaraResponse tbl (NotJSON text) r = (r, Some SyntaxError)"
| "Unmarshal_AqaraResponse tbl (JSON doc) r =
     decode_struct tbl AqaraResponse_fields AqaraResponse_set AqaraResponse_ok doc r"

text \<open>The \<^verbatim>\<open>Result\<close> struct of \<^verbatim>\<open>GetToken\<close> and its decoding from the raw payload.\<close>

record TokenResult =
  ExpiresIn :: string
  OpenID :: string
  AccessToken :: string
  RefreshToken :: string

definition TokenResult_zero :: TokenResult where
  "TokenResult_zero = \<lparr>ExpiresIn = [], OpenID = [], AccessToken = [], RefreshToken = []\<rparr>"

definition TokenResult_fields :: "string list" where
  "TokenResult_fields = [''expiresIn'', ''openId'', ''accessToken'', ''refreshToken'']"

definition TokenResult_set :: "string \<Rightarrow> json \<Rightarrow> TokenResult \<Rightarrow> TokenResult" where
  "TokenResult_set f v r =
     (if f = ''expiresIn'' then r\<lparr>ExpiresIn := store_string v (ExpiresIn r)\<rparr>
      else if f = ''openId'' then r\<lparr>OpenID := store_string v (OpenID r)\<rparr>
      else if f = ''accessToken'' then r\<lparr>AccessToken := store_string v (AccessToken r)\<rparr>
      else if f = ''refreshToken'' then r\<lparr>RefreshToken := store_string v (RefreshToken r)\<rparr>
      else r)"

definition TokenResult_ok :: "string \<Rightarrow> json \<Rightarrow> bool" where
  "TokenResult_ok f v = string_ok v"

fun Unmarshal_TokenResult ::
  "(nat \<Rightarrow> nat) \<Rightarrow> json option \<Rightarrow> TokenResult \<Rightarrow> TokenResult \<times> error option"
where
  "Unmarshal_TokenResult tbl None r = (r, Some SyntaxError)"
| "Unmarshal_TokenResult tbl (Some doc) r =
     decode_struct tbl TokenResult_fields TokenResult_set TokenResult_ok doc r"

text \<open>The \<^verbatim>\<open>Device\<close> and \<^verbatim>\<open>Result\<close> structs of \<^verbatim>\<open>GetDevices\<close>.\<close>

record Device =
  DID :: string
  ParentDID :: string
  PositionID :: string
  CreateTime :: string
  UpdateTime :: string
  Model :: string
  ModelType :: int
  State :: int
  FirmwareVersion :: string
  DeviceName :: string
  TimeZone :: string

record DevicesResult =
  Devices :: "Device list"
  TotalCount :: int

subsection \<open>The environment of a call\<close>

text \<open>
  What a call takes from outside the program: the verdict of \<^verbatim>\<open>http.NewRequest\<close> on
  the URL, the nonce and the timestamp that \<^verbatim>\<open>getNonce\<close> and \<^verbatim>\<open>getTimestamp\<close>
  draw from the random source and the clock, the answer of the transport to the
  request, the two Unicode tables, and the library's decoding of the device list
  (its slice handling is not modelled; no state of the client depends on it).
\<close>

record Request =
  Method :: string
  URL :: string
  Header :: "(string \<times> string) list"
  Body :: json

datatype http_result =
    DoError error
  | Response int "error + http_body"

record world =
  url_error :: "string \<Rightarrow> error option"
  getNonce :: string
  getTimestamp :: string
  Do :: "Request \<Rightarrow> http_result"
  lowerTable :: "nat \<Rightarrow> nat"
  foldTable :: "nat \<Rightarrow> nat"
  Unmarshal_DevicesResult :: "json option \<Rightarrow> DevicesResult \<times> error option"

text \<open>
  What a call does to the outside: the lines it logs (format and arguments of
  \<^verbatim>\<open>log.Printf\<close>), the requests it sends, and what it prints (\<^verbatim>\<open>fmt.Printf\<close>).
\<close>

datatype arg = AVal val | AErr error | ABody http_body

type_synonym log_entry = "string \<times> arg list"

record effects =
  logged :: "log_entry list"
  sent :: "Request list"
  printed :: "(string \<times> val list) list"

subsection \<open>apiCall\<close>

definition NewRequest :: "world \<Rightarrow> string \<Rightarrow> string \<Rightarrow> json \<Rightarrow> error + Request" where
  "NewRequest w m u b =
     (case url_error w u of
        Some err \<Rightarrow> Inl err
      | None \<Rightarrow> Inr \<lparr>Method = m, URL = u, Header = [], Body = b\<rparr>)"

definition Header_Add :: "Request \<Rightarrow> string \<Rightarrow> string \<Rightarrow> Request" where
  "Header_Add r k v = r\<lparr>Header := Header r @ [(k, v)]\<rparr>"

definition Header_Get :: "Request \<Rightarrow> string \<Rightarrow> string option" where
  "Header_Get r k = map_of (Header r) k"

text \<open>The headers of the request, in the order in which \<^verbatim>\<open>apiCall\<close> adds them.\<close>

definition signed :: "world \<Rightarrow> AqaraClient \<Rightarrow> Request \<Rightarrow> bool \<Rightarrow> Request" where
  "signed w a request authenticated =
     Header_Add (Header_Add (Header_Add (Header_Add (Header_Add (Header_Add (Header_Add
       (if authenticated then Header_Add request ''Accesstoken'' (accessToken a) else request)
       ''Content-Type'' ''application/json'')
       ''Appid'' (appID a))
       ''Keyid'' (keyID a))
       ''Nonce'' (getNonce w))
       ''Time'' (getTimestamp w))
       ''Sign'' (if authenticated
                 then sign (lowerTable w) a (accessToken a) (getNonce w) (getTimestamp w)
                 else sign (lowerTable w) a [] (getNonce w) (getTimestamp w)))
       ''Lang'' ''en''"

text \<open>What \<^verbatim>\<open>apiCall\<close> makes of the answer of the transport.\<close>

definition received ::
  "world \<Rightarrow> AqaraClient \<Rightarrow> string \<Rightarrow> AqaraResponse \<Rightarrow> http_result
     \<Rightarrow> error option \<times> AqaraResponse \<times> log_entry list"
where
  "received w a u aqaraResponse res =
     (case res of
        DoError err \<Rightarrow> (Some err, aqaraResponse, [(''Failed to do request: %v'', [AErr err])])
      | Response status rd \<Rightarrow>
          if status = 200 then
            (case rd of
               Inl err \<Rightarrow>
                 (Some err, aqaraResponse,
                  [(''Call to %q successful'', [AVal (VString u)]),
                   (''Failed to get response body: %v'', [AErr err])])
             | Inr responseBody \<Rightarrow>
                 (case Unmarshal_AqaraResponse (foldTable w) responseBody aqaraResponse of
                    (response, Some err) \<Rightarrow>
                      (Some err, response,
                       [(''Call to %q successful'', [AVal (VString u)]),
                        (''Failed to unmarshal response: %v'', [AErr err])])
                  | (response, None) \<Rightarrow>
                      if Code response \<noteq> 0 then
                        (Some (Errorf ''request against Aqara API failed with code: %v''
                                 [VInt (Code response)]),
                         response,
                         [(''Call to %q successful'', [AVal (VString u)]),
                          (''Aqara response with code %v received with message %v'',
                           [AVal (VInt (Code response)),
                            AVal (VString (MessageDetail response))])])
                      else
                        (None, response,
                         (''Call to %q successful'', [AVal (VString u)])
                           # (if debug a then [(''**DEBUG**: %v'', [ABody responseBody])]
                              else []))))
          else
            (Some (Errorf ''failed to do request: %v'' [VInt status]), aqaraResponse,
             [(''Status %v received'', [AVal (VInt status)])]))"

definition endpoint :: "AqaraClient \<Rightarrow> string" where
  "endpoint a = ''https://'' @ region a @ ''/v3.0/open/api''"

definition apiCall ::
  "world \<Rightarrow> AqaraClient \<Rightarrow> AqaraRequest \<Rightarrow> AqaraResponse \<Rightarrow> bool
     \<Rightarrow> error option \<times> AqaraResponse \<times> log_entry list \<times> Request list"
where
  "apiCall w a aqaraRequest aqaraResponse authenticated =
     (case NewRequest w ''POST'' (endpoint a) (Marshal aqaraRequest) of
        Inl err \<Rightarrow>
          (Some err, aqaraResponse, [(''Failed to prepare request: %v'', [AErr err])], [])
      | Inr request \<Rightarrow>
          (case received w a (endpoint a) aqaraResponse
                  (Do w (signed w a request authenticated)) of
             (err, response, lg) \<Rightarrow>
               (err, response, lg, [signed w a request authenticated])))"

subsection \<open>The three operations\<close>

definition failed :: "string \<Rightarrow> error option \<Rightarrow> log_entry list" where
  "failed fmt err = (case err of None \<Rightarrow> [] | Some e \<Rightarrow> [(fmt, [AErr e])])"

text \<open>The request envelopes that the operations build.\<close>

definition AuthCode_request :: "AqaraClient \<Rightarrow> AqaraRequest" where
  "AuthCode_request a =
     \<lparr>Intent = ''config.auth.getAuthCode'',
      Data = JObject [(''account'', JString (account a)), (''accountType'', JInt 0),
                      (''accessTokenValidity'', JString ''1h'')]\<rparr>"

definition Token_request :: "AqaraClient \<Rightarrow> string \<Rightarrow> AqaraRequest" where
  "Token_request a authCode =
     \<lparr>Intent = ''config.auth.getToken'',
      Data = JObject [(''authCode'', JString authCode), (''account'', JString (account a)),
                      (''accountType'', JInt 0)]\<rparr>"

definition Devices_request :: AqaraRequest where
  "Devices_request =
     \<lparr>Intent = ''query.device.info'',
      Data = JObject [(''dids'', JArray []), (''positionId'', JString []),
                      (''pageNum'', JInt 1), (''pageSize'', JInt 100)]\<rparr>"

definition GetAuthCode :: "world \<Rightarrow> AqaraClient \<Rightarrow> AqaraClient \<times> effects" where
  "GetAuthCode w a =
     (case apiCall w a (AuthCode_request a) AqaraResponse_zero False of
        (err, response, lg, rs) \<Rightarrow>
          (a, \<lparr>logged = lg @ failed ''Failed to do auth request: %v'' err, sent = rs,
               printed = []\<rparr>))"

definition GetToken :: "world \<Rightarrow> AqaraClient \<Rightarrow> string \<Rightarrow> AqaraClient \<times> effects" where
  "GetToken w a authCode =
     (case apiCall w a (Token_request a authCode) AqaraResponse_zero False of
        (err, response, lg, rs) \<Rightarrow>
          if Code response = 0 then
            (case Unmarshal_TokenResult (foldTable w) (Result response) TokenResult_zero of
               (result, err') \<Rightarrow>
                 (a\<lparr>accessToken := AccessToken result, refreshToken := RefreshToken result\<rparr>,
                  \<lparr>logged = lg @ failed ''Failed to do token request: %v'' err
                       @ [(''Login successful, updating account information'', [])]
                       @ failed ''Failed to unmarshal result: %v'' err',
                   sent = rs, printed = []\<rparr>))
          else
            (a, \<lparr>logged = lg @ failed ''Failed to do token request: %v'' err, sent = rs,
                 printed = []\<rparr>))"

fun print_device :: "Device \<Rightarrow> (string \<times> val list) list" where
  "print_device device =
     [(''Device Name:  %v'', [VString (DeviceName device)]),
      (''Device Model: %v'', [VString (Model device)])]"

definition GetDevices :: "world \<Rightarrow> AqaraClient \<Rightarrow> AqaraClient \<times> effects" where
  "GetDevices w a =
     (case apiCall w a Devices_request AqaraResponse_zero True of
        (err, response, lg, rs) \<Rightarrow>
          if Code response = 0 then
            (case Unmarshal_DevicesResult w (Result response) of
               (result, err') \<Rightarrow>
                 (a,
                  \<lparr>logged = lg @ failed ''Failed query devices: %v'' err
                       @ failed ''Failed to unmarshal result: %v'' err'
                       @ [(''Number of devices received: %v'', [AVal (VInt (TotalCount result))])],
                   sent = rs, printed = concat (map print_device (Devices result))\<rparr>))
          else
            (a, \<lparr>logged = lg @ failed ''Failed query devices: %v'' err, sent = rs,
                 printed = []\<rparr>))"

section \<open>The signer in the words of the specification\<close>

text \<open>
  The signer as the specification words it: the canonical string, folded to lower case
  by ASCII rules alone, then MD5 and lower-case hexadecimal.
\<close>

definition ascii_lower :: "char \<Rightarrow> char" where
  "ascii_lower c =
     (if 0x41 \<le> (of_char c :: nat) \<and> (of_char c :: nat) \<le> 0x5A
      then char_of (of_char c + (0x20 :: nat)) else c)"

definition canonical_string ::
  "string \<Rightarrow> string \<Rightarrow> string \<Rightarrow> string \<Rightarrow> string \<Rightarrow> string \<Rightarrow> string"
where
  "canonical_string app key secret token nonce timestamp =
     (if token \<noteq> []
      then ''Accesstoken='' @ token @ ''&Appid='' @ app @ ''&Keyid='' @ key
             @ ''&Nonce='' @ nonce @ ''&Time='' @ timestamp @ secret
      else ''Appid='' @ app @ ''&Keyid='' @ key
             @ ''&Nonce='' @ nonce @ ''&Time='' @ timestamp @ secret)"

definition spec_signature ::
  "string \<Rightarrow> string \<Rightarrow> string \<Rightarrow> string \<Rightarrow> string \<Rightarrow> string \<Rightarrow> string"
where
  "spec_signature app key secret token nonce timestamp =
     EncodeToString (md5_Sum (bytes (map ascii_lower
       (canonical_string app key secret token nonce timestamp))))"

text \<open>Two strings that differ at most in the case of ASCII letters.\<close>

definition ASCII_case_variant :: "string \<Rightarrow> string \<Rightarrow> bool" where
  "ASCII_case_variant s t = (map lowerASCII (bytes s) = map lowerASCII (bytes t))"

text \<open>
  The rows of the Unicode lower-case table for U+0080 to U+00FF: the capital letters
  U+00C0 to U+00DE, the multiplication sign U+00D7 apart, map 32 places up. It stands
  for the table at inputs whose runes lie in that block; runes outside the block are
  returned as they are.
\<close>

definition Latin1_ToLower :: "nat \<Rightarrow> nat" where
  "Latin1_ToLower r = (if 0xC0 \<le> r \<and> r \<le> 0xDE \<and> r \<noteq> 0xD7 then r + 0x20 else r)"

section \<open>Notions used by the properties of the client\<close>

text \<open>The request that \<^verbatim>\<open>apiCall\<close> hands to the transport when the URL is accepted.\<close>

definition sent_request :: "world \<Rightarrow> AqaraClient \<Rightarrow> AqaraRequest \<Rightarrow> bool \<Rightarrow> Request" where
  "sent_request w a q authenticated =
     signed w a \<lparr>Method = ''POST'', URL = endpoint a, Header = [], Body = Marshal q\<rparr>
       authenticated"

text \<open>
  The transport answers the call with status 200 and a body that decodes, without
  error, into the envelope \<open>response\<close>.
\<close>

definition decoded_reply ::
  "world \<Rightarrow> AqaraClient \<Rightarrow> AqaraRequest \<Rightarrow> bool \<Rightarrow> http_body \<Rightarrow> AqaraResponse \<Rightarrow> bool"
where
  "decoded_reply w a q authenticated responseBody response =
     (url_error w (endpoint a) = None
      \<and> Do w (sent_request w a q authenticated) = Response 200 (Inr responseBody)
      \<and> Unmarshal_AqaraResponse (foldTable w) responseBody AqaraResponse_zero
            = (response, None))"

text \<open>No member of an object is matched with the field \<open>f\<close> of the response envelope.\<close>

fun lacks :: "(nat \<Rightarrow> nat) \<Rightarrow> string \<Rightarrow> (string \<times> json) list \<Rightarrow> bool" where
  "lacks tbl f [] = True"
| "lacks tbl f ((key, v) # members) =
     (fieldFor tbl AqaraResponse_fields key \<noteq> Some f \<and> lacks tbl f members)"

text \<open>
  The \<^verbatim>\<open>result\<close> member of an object: the value of the last member that is matched
  with the field \<^verbatim>\<open>result\<close> of the response envelope, \<open>None\<close> when there is none.
\<close>

fun result_member :: "(nat \<Rightarrow> nat) \<Rightarrow> (string \<times> json) list \<Rightarrow> json option" where
  "result_member tbl [] = None"
| "result_member tbl ((key, v) # members) =
     (case result_member tbl members of
        Some payload \<Rightarrow> Some payload
      | None \<Rightarrow>
          if fieldFor tbl AqaraResponse_fields key = Some ''result'' then Some v else None)"

text \<open>
  The \<^verbatim>\<open>Result\<close> struct from which a call of \<^verbatim>\<open>GetToken\<close> takes the tokens; \<open>None\<close>
  when the call leaves the tokens alone.
\<close>

definition token_update :: "world \<Rightarrow> AqaraClient \<Rightarrow> string \<Rightarrow> TokenResult option" where
  "token_update w a authCode =
     (case apiCall w a (Token_request a authCode) AqaraResponse_zero False of
        (err, response, lg, rs) \<Rightarrow>
          if Code response = 0
          then Some (fst (Unmarshal_TokenResult (foldTable w) (Result response) TokenResult_zero))
          else None)"

definition paired :: "string \<Rightarrow> string \<Rightarrow> bool" where
  "paired x y = ((x = []) = (y = []))"

text \<open>
  The states of a client that starts from \<^verbatim>\<open>New\<close> and runs the three operations in any
  order, each call in an environment of its own, where every \<^verbatim>\<open>Result\<close> that
  \<^verbatim>\<open>GetToken\<close> takes tokens from has both tokens empty or both non-empty.
\<close>

inductive reachable :: "AqaraClient \<Rightarrow> bool" where
  start: "reachable (New rgn app key secret acct dbg)"
| auth_code: "reachable a \<Longrightarrow> reachable (fst (GetAuthCode w a))"
| token_kept: "reachable a \<Longrightarrow> token_update w a authCode = None
     \<Longrightarrow> reachable (fst (GetToken w a authCode))"
| token_taken: "reachable a \<Longrightarrow> token_update w a authCode = Some result
     \<Longrightarrow> paired (AccessToken result) (RefreshToken result)
     \<Longrightarrow> reachable (fst (GetToken w a authCode))"
| devices: "reachable a \<Longrightarrow> reachable (fst (GetDevices w a))"

text \<open>
  An environment for the examples: every URL is accepted, the nonce and the timestamp
  are fixed, and the transport is given. The fold table is Unicode's for U+0080 to
  U+00FF (the small letters U+00E0 to U+00FE, the division sign apart, fold 32 places
  down); the examples use ASCII keys and never consult it.
\<close>

definition Latin1_fold :: "nat \<Rightarrow> nat" where
  "Latin1_fold r = (if 0xE0 \<le> r \<and> r \<le> 0xFE \<and> r \<noteq> 0xF7 then r - 0x20 else r)"

definition no_devices :: "json option \<Rightarrow> DevicesResult \<times> error option" where
  "no_devices payload =
     (\<lparr>Devices = [], TotalCount = 0\<rparr>,
      (case payload of None \<Rightarrow> Some SyntaxError | Some doc \<Rightarrow> None))"

definition example_world :: "http_result \<Rightarrow> world" where
  "example_world answer =
     \<lparr>url_error = (\<lambda>u. None), getNonce = ''C6wuzd0Qguxzelhb'',
      getTimestamp = ''1618914078668'', Do = (\<lambda>request. answer),
      lowerTable = Latin1_ToLower, foldTable = Latin1_fold,
      Unmarshal_DevicesResult = no_devices\<rparr>"

definition example_client :: AqaraClient where
  "example_client =
     New ''open-ger.aqara.com'' ''4e693d54d75db580a56d1263'' ''k.78784564654feda454557''
       ''gU7Qtxi4dWnYAdmudyxni52bWZ58b8uN'' ''user@example.com'' False"

definition reply :: "(string \<times> json) list \<Rightarrow> http_result" where
  "reply members = Response 200 (Inr (JSON (JObject members)))"

section \<open>Properties of the signer\<close>

subsection \<open>The bytes that are hashed\<close>

lemma bytes_string_of: "\<forall>b\<in>set bs. b < 256 \<Longrightarrow> bytes (string_of bs) = bs"
  by (induction bs) (simp_all add: bytes_def string_of_def)

lemma EncodeRune_bytes: "b \<in> set (EncodeRune r) \<Longrightarrow> b < 256"
  by (auto simp: EncodeRune_def split: if_splits)

lemma Map_runes_bytes: "b \<in> set (Map_runes mapping s) \<Longrightarrow> b < 256"
proof (induction mapping s rule: Map_runes.induct)
  case (1 mapping s)
  show ?case
  proof (cases "s = []")
    case True
    with "1.prems" show ?thesis by (simp add: Map_runes.simps)
  next
    case False
    with "1.prems" have "b \<in> set (EncodeRune (mapping (fst (DecodeRune s))))
        \<or> b \<in> set (Map_runes mapping (drop (snd (DecodeRune s)) s))"
      by (subst (asm) Map_runes.simps) simp
    with False "1.IH" show ?thesis
      by (auto dest: EncodeRune_bytes)
  qed
qed

lemma isASCII_byte: "isASCII s \<Longrightarrow> x \<in> set s \<Longrightarrow> x < 128"
  by (induction s) auto

lemma lowerASCII_bytes: "isASCII s \<Longrightarrow> x \<in> set s \<Longrightarrow> lowerASCII x < 256"
  by (auto simp: lowerASCII_def dest: isASCII_byte)

lemma ToLower_bytes_range: "b \<in> set (ToLower_bytes tbl s) \<Longrightarrow> b < 256"
  unfolding ToLower_bytes_def
  by (auto split: if_splits dest: Map_runes_bytes lowerASCII_bytes)

lemma bytes_ToLower: "bytes (ToLower tbl s) = ToLower_bytes tbl (bytes s)"
  unfolding ToLower_def
  by (rule bytes_string_of) (auto dest: ToLower_bytes_range)

lemma replicate_numeral: "replicate (numeral k) x = x # replicate (pred_numeral k) x"
  by (simp add: numeral_eq_Suc)

lemmas md5_eval =
  replicate_numeral hexbyte_def EncodeToString_def md5_Sum_def md5_pad_def put64_def put32_def
  chunks.simps md5_block_def round1_def round2_def round3_def round4_def md5_F_def md5_G_def
  md5_H_def md5_I_def RotateLeft32_def hextable_def u32_def not32_def

lemma lowerASCII_lt: "lowerASCII c < 0x80 \<longleftrightarrow> c < 0x80"
  by (auto simp: lowerASCII_def)

lemma lowerASCII_high: "0x80 \<le> c \<Longrightarrow> lowerASCII c = c"
  by (simp add: lowerASCII_def)

lemma lowerASCII_idem: "lowerASCII (lowerASCII c) = lowerASCII c"
  by (simp add: lowerASCII_def)

lemma isASCII_map_lowerASCII: "isASCII (map lowerASCII s) = isASCII s"
  by (induction s) (simp_all add: lowerASCII_lt)

lemma unicode_ToLower_lowerASCII: "c < 0x80 \<Longrightarrow> unicode_ToLower tbl (lowerASCII c) = unicode_ToLower tbl c"
  by (auto simp: unicode_ToLower_def lowerASCII_def)

lemma DecodeRune_ascii: "s \<noteq> [] \<Longrightarrow> s ! 0 < 0x80 \<Longrightarrow> DecodeRune s = (s ! 0, 1)"
  by (cases s) (simp_all add: DecodeRune_def first_size_def)

lemma accept_lo_ge: "0x80 \<le> accept_lo a"
  by (simp add: accept_lo_def)

lemma accept_hi_ge: "0x80 \<le> accept_hi a"
  by (simp add: accept_hi_def)

lemma lowerASCII_less: "0x80 \<le> lo \<Longrightarrow> (lowerASCII c < lo) = (c < lo)"
  by (auto simp: lowerASCII_def)

lemma less_lowerASCII: "0x80 \<le> hi \<Longrightarrow> (hi < lowerASCII c) = (hi < c)"
  by (auto simp: lowerASCII_def)

lemma DecodeRune_map_high:
  assumes "s \<noteq> []" and "0x80 \<le> s ! 0"
  shows "DecodeRune (map lowerASCII s) = DecodeRune s"
  using assms accept_lo_ge [of "s ! 0"] accept_hi_ge [of "s ! 0"]
  by (simp add: DecodeRune_def lowerASCII_high lowerASCII_less less_lowerASCII cong: if_cong)

lemma Map_runes_lowerASCII:
  "Map_runes (unicode_ToLower tbl) (map lowerASCII s) = Map_runes (unicode_ToLower tbl) s"
proof (induction "unicode_ToLower tbl" s rule: Map_runes.induct)
  case (1 s)
  show ?case
  proof (cases "s = []")
    case True
    then show ?thesis by simp
  next
    case False
    have same:
      "snd (DecodeRune (map lowerASCII s)) = snd (DecodeRune s) \<and>
       unicode_ToLower tbl (fst (DecodeRune (map lowerASCII s)))
         = unicode_ToLower tbl (fst (DecodeRune s))"
    proof (cases "s ! 0 < 0x80")
      case True
      with False have "DecodeRune s = (s ! 0, 1)"
        by (simp add: DecodeRune_ascii)
      moreover from True False have "DecodeRune (map lowerASCII s) = (lowerASCII (s ! 0), 1)"
        using DecodeRune_ascii [of "map lowerASCII s"] by (simp add: lowerASCII_lt)
      ultimately show ?thesis
        using True by (simp add: unicode_ToLower_lowerASCII)
    next
      case False
      with \<open>s \<noteq> []\<close> show ?thesis
        by (simp add: DecodeRune_map_high)
    qed
    from False have "Map_runes (unicode_ToLower tbl) (map lowerASCII s) =
        EncodeRune (unicode_ToLower tbl (fst (DecodeRune (map lowerASCII s))))
          @ Map_runes (unicode_ToLower tbl)
              (drop (snd (DecodeRune (map lowerASCII s))) (map lowerASCII s))"
      by (subst Map_runes.simps) simp
    also have "\<dots> = EncodeRune (unicode_ToLower tbl (fst (DecodeRune s)))
          @ Map_runes (unicode_ToLower tbl) (map lowerASCII (drop (snd (DecodeRune s)) s))"
      using same by (simp add: drop_map)
    also have "\<dots> = EncodeRune (unicode_ToLower tbl (fst (DecodeRune s)))
          @ Map_runes (unicode_ToLower tbl) (drop (snd (DecodeRune s)) s)"
      using "1.hyps" [OF False] by simp
    also have "\<dots> = Map_runes (unicode_ToLower tbl) s"
      using False by (subst (2) Map_runes.simps) simp
    finally show ?thesis .
  qed
qed

lemma ToLower_bytes_lowerASCII: "ToLower_bytes tbl (map lowerASCII s) = ToLower_bytes tbl s"
  by (simp add: ToLower_bytes_def isASCII_map_lowerASCII Map_runes_lowerASCII lowerASCII_idem)

lemma ToLower_bytes_fold:
  "map lowerASCII s = map lowerASCII t \<Longrightarrow> ToLower_bytes tbl s = ToLower_bytes tbl t"
  by (metis ToLower_bytes_lowerASCII)

lemma bytes_append: "bytes (s @ t) = bytes s @ bytes t"
  by (simp add: bytes_def)

lemma isASCII_append: "isASCII (s @ t) = (isASCII s \<and> isASCII t)"
  by (induction s) auto

lemma of_char_ascii_lower: "of_char (ascii_lower c) = lowerASCII (of_char c)"
proof -
  have "(of_char c :: nat) < 256"
    by simp
  then show ?thesis
    by (simp add: ascii_lower_def lowerASCII_def)
qed

lemma bytes_map_ascii_lower: "bytes (map ascii_lower s) = map lowerASCII (bytes s)"
  by (simp add: bytes_def of_char_ascii_lower)

lemma put32_length: "length (put32 w) = 4"
  by (simp add: put32_def)

lemma put32_bytes: "b \<in> set (put32 w) \<Longrightarrow> b < 256"
  by (auto simp: put32_def)

lemma md5_Sum_length: "length (md5_Sum m) = 16"
  unfolding md5_Sum_def
  by (cases "foldl md5_block (0x67452301, 0xefcdab89, 0x98badcfe, 0x10325476) (chunks 64 (md5_pad m))")
    (simp add: put32_length)

lemma md5_Sum_bytes: "b \<in> set (md5_Sum m) \<Longrightarrow> b < 256"
  unfolding md5_Sum_def
  by (cases "foldl md5_block (0x67452301, 0xefcdab89, 0x98badcfe, 0x10325476) (chunks 64 (md5_pad m))")
    (auto dest: put32_bytes)

lemma hextable_nth: "i < 16 \<Longrightarrow> hextable ! i \<in> set hextable"
  by (rule nth_mem) (simp add: hextable_def)

lemma hexbyte_set: "v < 256 \<Longrightarrow> set (hexbyte v) \<subseteq> set hextable"
  by (simp add: hexbyte_def hextable_nth less_mult_imp_div_less)

lemma EncodeToString_length: "length (EncodeToString src) = 2 * length src"
  by (induction src) (simp_all add: EncodeToString_def hexbyte_def)

lemma EncodeToString_set:
  "\<forall>v\<in>set src. v < 256 \<Longrightarrow> set (EncodeToString src) \<subseteq> set hextable"
  using hexbyte_set by (fastforce simp: EncodeToString_def)

lemma sign_bytes:
  "sign tbl a token nonce timestamp =
     EncodeToString (md5_Sum (ToLower_bytes tbl (bytes
       (canonical_string (appID a) (keyID a) (appKey a) token nonce timestamp))))"
  by (simp add: sign_def bytes_ToLower canonical_string_def)

lemma bytes_canonical_string:
  "bytes (canonical_string app key secret token nonce timestamp) =
     (if token \<noteq> []
      then bytes ''Accesstoken='' @ bytes token @ bytes ''&Appid='' @ bytes app
             @ bytes ''&Keyid='' @ bytes key @ bytes ''&Nonce='' @ bytes nonce
             @ bytes ''&Time='' @ bytes timestamp @ bytes secret
      else bytes ''Appid='' @ bytes app @ bytes ''&Keyid='' @ bytes key
             @ bytes ''&Nonce='' @ bytes nonce @ bytes ''&Time='' @ bytes timestamp
             @ bytes secret)"
  by (simp add: canonical_string_def bytes_def)

lemma ASCII_case_variant_empty: "ASCII_case_variant s t \<Longrightarrow> (s = []) = (t = [])"
  by (auto simp: ASCII_case_variant_def bytes_def)

lemma canonical_string_variant:
  assumes "ASCII_case_variant app app'" "ASCII_case_variant key key'"
    "ASCII_case_variant secret secret'" "ASCII_case_variant token token'"
    "ASCII_case_variant nonce nonce'" "ASCII_case_variant timestamp timestamp'"
  shows "map lowerASCII (bytes (canonical_string app key secret token nonce timestamp))
       = map lowerASCII (bytes (canonical_string app' key' secret' token' nonce' timestamp'))"
  using assms ASCII_case_variant_empty [OF assms(4)]
  by (simp add: bytes_canonical_string) (simp add: ASCII_case_variant_def)

text \<open>
  Claim C7: the signature is always 32 characters of the lower-case hexadecimal
  alphabet, and it does not change when the client's appID, keyID or appKey, the access
  token, the nonce or the timestamp are replaced by strings that differ from them only
  in the case of ASCII letters. This holds for every Unicode table \<open>tbl\<close>.
\<close>

theorem sign_lower_hex_case_insensitive:
  "length (sign tbl a token nonce timestamp) = 32
   \<and> set (sign tbl a token nonce timestamp) \<subseteq> set ''0123456789abcdef''
   \<and> (ASCII_case_variant (appID a) (appID a') \<and> ASCII_case_variant (keyID a) (keyID a')
        \<and> ASCII_case_variant (appKey a) (appKey a') \<and> ASCII_case_variant token token'
        \<and> ASCII_case_variant nonce nonce' \<and> ASCII_case_variant timestamp timestamp'
      \<longrightarrow> sign tbl a token nonce timestamp = sign tbl a' token' nonce' timestamp')"
proof (intro conjI impI)
  show "length (sign tbl a token nonce timestamp) = 32"
    by (simp add: sign_def EncodeToString_length md5_Sum_length)
  have "set (sign tbl a token nonce timestamp) \<subseteq> set hextable"
    unfolding sign_def by (rule EncodeToString_set) (simp add: md5_Sum_bytes)
  then show "set (sign tbl a token nonce timestamp) \<subseteq> set ''0123456789abcdef''"
    by (simp only: hextable_def)
next
  assume v: "ASCII_case_variant (appID a) (appID a') \<and> ASCII_case_variant (keyID a) (keyID a')
        \<and> ASCII_case_variant (appKey a) (appKey a') \<and> ASCII_case_variant token token'
        \<and> ASCII_case_variant nonce nonce' \<and> ASCII_case_variant timestamp timestamp'"
  then have "map lowerASCII
        (bytes (canonical_string (appID a) (keyID a) (appKey a) token nonce timestamp))
      = map lowerASCII
        (bytes (canonical_string (appID a') (keyID a') (appKey a') token' nonce' timestamp'))"
    by (intro canonical_string_variant) simp_all
  then have "ToLower_bytes tbl
        (bytes (canonical_string (appID a) (keyID a) (appKey a) token nonce timestamp))
      = ToLower_bytes tbl
        (bytes (canonical_string (appID a') (keyID a') (appKey a') token' nonce' timestamp'))"
    by (rule ToLower_bytes_fold)
  then show "sign tbl a token nonce timestamp = sign tbl a' token' nonce' timestamp'"
    by (simp add: sign_bytes)
qed

theorem sign_lower_hex_case_insensitive_witness:
  "ASCII_case_variant ''App1'' ''aPP1'' \<and> ASCII_case_variant ''k.7F'' ''K.7f''
   \<and> ASCII_case_variant ''gU7Q'' ''Gu7q'' \<and> ASCII_case_variant ''Tok'' ''tOK''
   \<and> ASCII_case_variant ''C6wu'' ''c6WU'' \<and> ASCII_case_variant ''16'' ''16''
   \<and> sign Latin1_ToLower (New ''open-ger.aqara.com'' ''App1'' ''k.7F'' ''gU7Q'' ''u'' False)
         ''Tok'' ''C6wu'' ''16''
     = sign Latin1_ToLower (New ''open-ger.aqara.com'' ''aPP1'' ''K.7f'' ''Gu7q'' ''u'' False)
         ''tOK'' ''c6WU'' ''16''"
proof -
  have v: "ASCII_case_variant ''App1'' ''aPP1'' \<and> ASCII_case_variant ''k.7F'' ''K.7f''
   \<and> ASCII_case_variant ''gU7Q'' ''Gu7q'' \<and> ASCII_case_variant ''Tok'' ''tOK''
   \<and> ASCII_case_variant ''C6wu'' ''c6WU'' \<and> ASCII_case_variant ''16'' ''16''"
    by (simp add: ASCII_case_variant_def bytes_def lowerASCII_def)
  with sign_lower_hex_case_insensitive [of Latin1_ToLower
      "New ''open-ger.aqara.com'' ''App1'' ''k.7F'' ''gU7Q'' ''u'' False" "''Tok''" "''C6wu''"
      "''16''" "New ''open-ger.aqara.com'' ''aPP1'' ''K.7f'' ''Gu7q'' ''u'' False" "''tOK''"
      "''c6WU''" "''16''"]
  show ?thesis
    by (simp add: New_def)
qed

text \<open>
  Claim C1, amended: when the appID, keyID, appKey, access token, nonce and timestamp
  are ASCII strings, \<^verbatim>\<open>sign\<close> returns the lower-case hexadecimal MD5 digest of the
  ASCII-lower-cased canonical string, which starts with the access token when that is
  not empty. (For other strings \<^verbatim>\<open>strings.ToLower\<close> folds by the Unicode tables, see
  the counterexample below.)
\<close>

theorem sign_ascii_lower:
  assumes "isASCII (bytes (appID a))" "isASCII (bytes (keyID a))" "isASCII (bytes (appKey a))"
    "isASCII (bytes token)" "isASCII (bytes nonce)" "isASCII (bytes timestamp)"
  shows "sign tbl a token nonce timestamp
       = spec_signature (appID a) (keyID a) (appKey a) token nonce timestamp"
proof -
  have "isASCII (bytes (canonical_string (appID a) (keyID a) (appKey a) token nonce timestamp))"
    using assms by (simp add: bytes_canonical_string isASCII_append) (simp add: bytes_def)
  then show ?thesis
    by (simp add: sign_bytes spec_signature_def bytes_map_ascii_lower ToLower_bytes_def)
qed

theorem sign_ascii_lower_witness:
  "isASCII (bytes ''App1'') \<and> isASCII (bytes ''k.7F'') \<and> isASCII (bytes ''gU7Q'')
   \<and> isASCII (bytes ''Tok'') \<and> isASCII (bytes ''C6wu'') \<and> isASCII (bytes ''16'')
   \<and> sign Latin1_ToLower (New ''open-ger.aqara.com'' ''App1'' ''k.7F'' ''gU7Q'' ''u'' False)
         ''Tok'' ''C6wu'' ''16''
     = spec_signature ''App1'' ''k.7F'' ''gU7Q'' ''Tok'' ''C6wu'' ''16''"
proof -
  have h: "isASCII (bytes ''App1'')" "isASCII (bytes ''k.7F'')" "isASCII (bytes ''gU7Q'')"
    "isASCII (bytes ''Tok'')" "isASCII (bytes ''C6wu'')" "isASCII (bytes ''16'')"
    by (simp_all add: bytes_def)
  with sign_ascii_lower [of "New ''open-ger.aqara.com'' ''App1'' ''k.7F'' ''gU7Q'' ''u'' False"
      "''Tok''" "''C6wu''" "''16''" Latin1_ToLower]
  show ?thesis
    by (simp add: New_def)
qed

lemma sign_E_acute:
  "sign Latin1_ToLower (New ''open-ger.aqara.com'' ''a'' ''k'' ''s'' ''u'' False)
     [CHR 0xC3, CHR 0x89] ''n'' ''1'' = ''b2a488433beccdb814ca1dcfb22cd40c''"
  unfolding sign_def bytes_ToLower
  by (simp add: New_def bytes_def ToLower_bytes_def Map_runes.simps DecodeRune_def EncodeRune_def
      first_size_def accept_lo_def accept_hi_def unicode_ToLower_def Latin1_ToLower_def md5_eval)

lemma spec_signature_E_acute:
  "spec_signature ''a'' ''k'' ''s'' [CHR 0xC3, CHR 0x89] ''n'' ''1''
     = ''555c739d041af6620d5339143920c0ab''"
  unfolding spec_signature_def bytes_map_ascii_lower
  by (simp add: canonical_string_def bytes_def lowerASCII_def md5_eval)

text \<open>
  Claim C1 as stated fails outside ASCII: for the access token of the two bytes C3 89 (the UTF-8
  encoding of U+00C9, capital E with acute) \<^verbatim>\<open>strings.ToLower\<close> yields U+00E9, so the
  string that is hashed is not the ASCII-lower-cased one, and the digests differ.
\<close>

theorem sign_ascii_lower_counterexample:
  "sign Latin1_ToLower (New ''open-ger.aqara.com'' ''a'' ''k'' ''s'' ''u'' False)
     [CHR 0xC3, CHR 0x89] ''n'' ''1''
   \<noteq> spec_signature ''a'' ''k'' ''s'' [CHR 0xC3, CHR 0x89] ''n'' ''1''"
  by (simp add: sign_E_acute spec_signature_E_acute)

text \<open>
  Claim C2 (known vector): a client whose appID is \<^verbatim>\<open>4e693d54d75db580a56d1263\<close>, keyID
  \<^verbatim>\<open>k.78784564654feda454557\<close> and appKey \<^verbatim>\<open>gU7Qtxi4dWnYAdmudyxni52bWZ58b8uN\<close>
  (its other fields are arbitrary) signs the access token
  \<^verbatim>\<open>532cad73c5493193d63d367016b98b27\<close>, nonce \<^verbatim>\<open>C6wuzd0Qguxzelhb\<close> and timestamp
  \<^verbatim>\<open>1618914078668\<close> as \<^verbatim>\<open>314a6f6fd46264e6ec872e21f88361c3\<close>. The inputs are ASCII, so
  the Unicode table \<open>tbl\<close> is never consulted.
\<close>

theorem sign_known_vector:
  "sign tbl (a\<lparr>appID := ''4e693d54d75db580a56d1263'', keyID := ''k.78784564654feda454557'',
               appKey := ''gU7Qtxi4dWnYAdmudyxni52bWZ58b8uN''\<rparr>)
     ''532cad73c5493193d63d367016b98b27'' ''C6wuzd0Qguxzelhb'' ''1618914078668''
   = ''314a6f6fd46264e6ec872e21f88361c3''"
  unfolding sign_def bytes_ToLower
  by (simp add: bytes_def ToLower_bytes_def lowerASCII_def md5_eval)

subsection \<open>Signing with and without a token\<close>

text \<open>
  What is hashed for a non-empty token always differs from what is hashed for the
  empty one: after lower-casing the first starts with \<^verbatim>\<open>ac\<close>, the second with
  \<^verbatim>\<open>ap\<close>. Whether the two digests differ as well is a question about collisions of
  MD5, which this development leaves open.
\<close>

lemma ToLower_bytes_Cons:
  assumes "c < 0x80"
  shows "ToLower_bytes tbl (c # s) = lowerASCII c # ToLower_bytes tbl s"
proof (cases "isASCII s")
  case True
  with assms show ?thesis
    by (simp add: ToLower_bytes_def)
next
  case False
  from assms have d: "DecodeRune (c # s) = (c, 1)"
    using DecodeRune_ascii [of "c # s"] by simp
  from assms have e: "EncodeRune (unicode_ToLower tbl c) = [lowerASCII c]"
    by (simp add: unicode_ToLower_def lowerASCII_def EncodeRune_def)
  have "Map_runes (unicode_ToLower tbl) (c # s)
      = lowerASCII c # Map_runes (unicode_ToLower tbl) s"
    by (subst Map_runes.simps) (simp add: d e)
  with False show ?thesis
    by (simp add: ToLower_bytes_def)
qed

lemma hashed_strings_differ:
  assumes "token \<noteq> []"
  shows "ToLower_bytes tbl (bytes (canonical_string app key secret token nonce timestamp))
       \<noteq> ToLower_bytes tbl (bytes (canonical_string app key secret [] nonce timestamp))"
  using assms
  by (simp add: canonical_string_def bytes_def ToLower_bytes_Cons lowerASCII_def)

section \<open>Properties of the client\<close>

lemma apiCall_sent:
  "snd (snd (snd (apiCall w a q p authenticated))) =
     (case url_error w (endpoint a) of Some err \<Rightarrow> [] | None \<Rightarrow> [sent_request w a q authenticated])"
  by (simp add: apiCall_def NewRequest_def sent_request_def split: option.splits prod.splits)

lemma Header_Get_Add:
  "Header_Get (Header_Add r k v) k' =
     (case Header_Get r k' of Some v' \<Rightarrow> Some v' | None \<Rightarrow> if k' = k then Some v else None)"
  by (simp add: Header_Get_def Header_Add_def map_add_def split: option.splits)

text \<open>
  Claim C9: in every environment, whatever the transport answers, \<^verbatim>\<open>GetAuthCode\<close> and
  \<^verbatim>\<open>GetDevices\<close> return the client as it was: region, appID, keyID, appKey, account,
  accessToken, refreshToken and debug are all unchanged.
\<close>

theorem GetAuthCode_GetDevices_frame:
  "fst (GetAuthCode w a) = a \<and> fst (GetDevices w a) = a"
  by (simp add: GetAuthCode_def GetDevices_def split: prod.splits)

text \<open>
  Claim C4: every request that \<^verbatim>\<open>apiCall\<close> sends carries in its \<^verbatim>\<open>Sign\<close> header the
  signature of the client's stored access token when \<open>authenticated\<close> is true and of
  the empty token otherwise; it has an \<^verbatim>\<open>Accesstoken\<close> header, holding the stored token,
  exactly when \<open>authenticated\<close> is true; and \<^verbatim>\<open>Content-Type\<close>, \<^verbatim>\<open>Appid\<close>, \<^verbatim>\<open>Keyid\<close>,
  \<^verbatim>\<open>Nonce\<close>, \<^verbatim>\<open>Time\<close> and \<^verbatim>\<open>Lang\<close> are set on every request.
\<close>

theorem apiCall_headers:
  assumes "r \<in> set (snd (snd (snd (apiCall w a q p authenticated))))"
  shows "Header_Get r ''Sign''
           = Some (sign (lowerTable w) a (if authenticated then accessToken a else [])
                     (getNonce w) (getTimestamp w))
       \<and> Header_Get r ''Accesstoken'' = (if authenticated then Some (accessToken a) else None)
       \<and> Header_Get r ''Content-Type'' = Some ''application/json''
       \<and> Header_Get r ''Appid'' = Some (appID a)
       \<and> Header_Get r ''Keyid'' = Some (keyID a)
       \<and> Header_Get r ''Nonce'' = Some (getNonce w)
       \<and> Header_Get r ''Time'' = Some (getTimestamp w)
       \<and> Header_Get r ''Lang'' = Some ''en''"
proof -
  from assms have r: "r = sent_request w a q authenticated"
    by (simp add: apiCall_sent split: option.splits)
  have empty:
    "Header_Get \<lparr>Method = ''POST'', URL = endpoint a, Header = [], Body = Marshal q\<rparr> k = None"
    for k by (simp add: Header_Get_def)
  show ?thesis
    unfolding r sent_request_def signed_def
    by (cases authenticated) (simp_all add: Header_Get_Add empty)
qed

theorem apiCall_headers_witness:
  "sent_request (example_world (reply [])) (example_client\<lparr>accessToken := ''at1''\<rparr>)
       Devices_request True
     \<in> set (snd (snd (snd (apiCall (example_world (reply []))
               (example_client\<lparr>accessToken := ''at1''\<rparr>) Devices_request AqaraResponse_zero True))))
   \<and> Header_Get (sent_request (example_world (reply []))
         (example_client\<lparr>accessToken := ''at1''\<rparr>) Devices_request True) ''Accesstoken''
       = Some ''at1''
   \<and> Header_Get (sent_request (example_world (reply []))
         (example_client\<lparr>accessToken := ''at1''\<rparr>) Devices_request True) ''Sign''
       = Some (sign Latin1_ToLower (example_client\<lparr>accessToken := ''at1''\<rparr>) ''at1''
                 ''C6wuzd0Qguxzelhb'' ''1618914078668'')"
proof -
  have m: "sent_request (example_world (reply [])) (example_client\<lparr>accessToken := ''at1''\<rparr>)
       Devices_request True
     \<in> set (snd (snd (snd (apiCall (example_world (reply []))
               (example_client\<lparr>accessToken := ''at1''\<rparr>) Devices_request AqaraResponse_zero True))))"
    by (simp add: apiCall_sent example_world_def)
  from apiCall_headers [OF m] m show ?thesis
    by (simp add: example_world_def)
qed

lemmas decode_eval =
  fieldFor_def AqaraResponse_fields_def AqaraResponse_set_def AqaraResponse_ok_def
  AqaraResponse_zero_def TokenResult_fields_def TokenResult_set_def TokenResult_ok_def
  TokenResult_zero_def

lemmas call_eval =
  apiCall_def NewRequest_def received_def failed_def example_world_def example_client_def
  reply_def New_def Token_request_def Devices_request_def AuthCode_request_def

lemma GetToken_tokens:
  "fst (GetToken w a authCode) =
     (case token_update w a authCode of
        None \<Rightarrow> a
      | Some result \<Rightarrow> a\<lparr>accessToken := AccessToken result, refreshToken := RefreshToken result\<rparr>)"
  by (simp add: GetToken_def token_update_def split: prod.splits)

text \<open>
  Claim C3 says that a failed \<^verbatim>\<open>GetToken\<close> leaves both tokens as they were. The code
  logs the error of \<^verbatim>\<open>apiCall\<close> and goes on; the envelope is still zeroed then, so
  its code is 0, the nil payload does not decode, and both tokens are overwritten with
  the empty strings of the zeroed \<^verbatim>\<open>Result\<close>. Here a client logs in (tokens
  \<^verbatim>\<open>at1\<close> and \<^verbatim>\<open>rt1\<close>); a second \<^verbatim>\<open>GetToken\<close> that meets HTTP status 500 leaves it
  with two empty tokens.
\<close>

theorem GetToken_failure_clears_tokens:
  "accessToken (fst (GetToken
       (example_world (reply [(''code'', JInt 0),
          (''result'', JObject [(''accessToken'', JString ''at1''),
                                (''refreshToken'', JString ''rt1'')])]))
       example_client ''123456'')) = ''at1''
   \<and> refreshToken (fst (GetToken
       (example_world (reply [(''code'', JInt 0),
          (''result'', JObject [(''accessToken'', JString ''at1''),
                                (''refreshToken'', JString ''rt1'')])]))
       example_client ''123456'')) = ''rt1''
   \<and> accessToken (fst (GetToken
       (example_world (Response 500 (Inr (NotJSON ''Internal Server Error''))))
       (fst (GetToken
          (example_world (reply [(''code'', JInt 0),
             (''result'', JObject [(''accessToken'', JString ''at1''),
                                   (''refreshToken'', JString ''rt1'')])]))
          example_client ''123456''))
       ''654321'')) = []
   \<and> refreshToken (fst (GetToken
       (example_world (Response 500 (Inr (NotJSON ''Internal Server Error''))))
       (fst (GetToken
          (example_world (reply [(''code'', JInt 0),
             (''result'', JObject [(''accessToken'', JString ''at1''),
                                   (''refreshToken'', JString ''rt1'')])]))
          example_client ''123456''))
       ''654321'')) = []"
  by (simp add: GetToken_def call_eval decode_eval int64_def)

text \<open>
  Claim C6 as stated fails: \<^verbatim>\<open>GetToken\<close> stores what the payload holds, and a payload
  with code 0 and only an \<^verbatim>\<open>accessToken\<close> leaves a fresh client with a non-empty access
  token and an empty refresh token.
\<close>

theorem tokens_unpaired_counterexample:
  "\<not> paired
      (accessToken (fst (GetToken
         (example_world (reply [(''code'', JInt 0),
            (''result'', JObject [(''accessToken'', JString ''at1'')])]))
         (New ''open-ger.aqara.com'' ''app'' ''key'' ''secret'' ''user@example.com'' False)
         ''123456'')))
      (refreshToken (fst (GetToken
         (example_world (reply [(''code'', JInt 0),
            (''result'', JObject [(''accessToken'', JString ''at1'')])]))
         (New ''open-ger.aqara.com'' ''app'' ''key'' ''secret'' ''user@example.com'' False)
         ''123456'')))"
  by (simp add: GetToken_def call_eval decode_eval int64_def paired_def)

text \<open>
  Claim C6, amended: in every state that a client reaches from \<^verbatim>\<open>New\<close> by any sequence
  of \<^verbatim>\<open>GetAuthCode\<close>, \<^verbatim>\<open>GetToken\<close> and \<^verbatim>\<open>GetDevices\<close>, where every
  \<^verbatim>\<open>Result\<close> from which \<^verbatim>\<open>GetToken\<close> takes the tokens has its two tokens both empty or
  both non-empty, the accessToken and the refreshToken are both empty or both
  non-empty.
\<close>

theorem reachable_tokens_paired:
  "reachable a \<Longrightarrow> paired (accessToken a) (refreshToken a)"
proof (induction rule: reachable.induct)
  case (start rgn app key secret acct dbg)
  show ?case by (simp add: New_def paired_def)
next
  case (auth_code a w)
  then show ?case by (simp add: GetAuthCode_def split: prod.splits)
next
  case (token_kept a w authCode)
  then show ?case by (simp add: GetToken_tokens)
next
  case (token_taken a w authCode result)
  then show ?case by (simp add: GetToken_tokens)
next
  case (devices a w)
  then show ?case by (simp add: GetDevices_def split: prod.splits)
qed

theorem reachable_tokens_paired_witness:
  "reachable (fst (GetToken
       (example_world (reply [(''code'', JInt 0),
          (''result'', JObject [(''accessToken'', JString ''at1''),
                                (''refreshToken'', JString ''rt1'')])]))
       example_client ''123456''))
   \<and> paired ''at1'' ''rt1''"
proof -
  let ?w = "example_world (reply [(''code'', JInt 0),
          (''result'', JObject [(''accessToken'', JString ''at1''),
                                (''refreshToken'', JString ''rt1'')])])"
  have u: "token_update ?w example_client ''123456''
      = Some \<lparr>ExpiresIn = [], OpenID = [], AccessToken = ''at1'', RefreshToken = ''rt1''\<rparr>"
    by (simp add: token_update_def call_eval decode_eval int64_def)
  have r: "reachable (fst (GetToken ?w example_client ''123456''))"
    by (rule reachable.token_taken [OF _ u])
      (simp_all add: example_client_def reachable.start paired_def)
  have t: "fst (GetToken ?w example_client ''123456'')
      = example_client\<lparr>accessToken := ''at1'', refreshToken := ''rt1''\<rparr>"
    by (simp add: GetToken_tokens u)
  from reachable_tokens_paired [OF r] r show ?thesis
    by (simp add: t)
qed

lemma apiCall_decoded:
  assumes "decoded_reply w a q authenticated responseBody response"
  shows "apiCall w a q AqaraResponse_zero authenticated =
     (if Code response \<noteq> 0
      then (Some (Errorf ''request against Aqara API failed with code: %v'' [VInt (Code response)]),
            response,
            [(''Call to %q successful'', [AVal (VString (endpoint a))]),
             (''Aqara response with code %v received with message %v'',
              [AVal (VInt (Code response)), AVal (VString (MessageDetail response))])],
            [sent_request w a q authenticated])
      else (None, response,
            (''Call to %q successful'', [AVal (VString (endpoint a))])
              # (if debug a then [(''**DEBUG**: %v'', [ABody responseBody])] else []),
            [sent_request w a q authenticated]))"
  using assms
  by (simp add: decoded_reply_def apiCall_def NewRequest_def received_def sent_request_def)

text \<open>
  Claim C5, amended: when the body decodes without error into an envelope whose code is
  not 0, \<^verbatim>\<open>apiCall\<close> returns the error that carries that code, and logs the code
  with the detail message (the error itself does not carry the detail message). In
  that case \<^verbatim>\<open>GetToken\<close> and \<^verbatim>\<open>GetDevices\<close> leave the client alone and log only the
  failure: no payload is decoded, nothing is printed, and the result does not depend
  on the decoder of the device list.
\<close>

theorem vendor_error_short_circuit:
  "(decoded_reply w a q authenticated responseBody response \<and> Code response \<noteq> 0 \<longrightarrow>
      apiCall w a q AqaraResponse_zero authenticated =
        (Some (Errorf ''request against Aqara API failed with code: %v'' [VInt (Code response)]),
         response,
         [(''Call to %q successful'', [AVal (VString (endpoint a))]),
          (''Aqara response with code %v received with message %v'',
           [AVal (VInt (Code response)), AVal (VString (MessageDetail response))])],
         [sent_request w a q authenticated]))
   \<and> (decoded_reply w a (Token_request a authCode) False responseBody response
        \<and> Code response \<noteq> 0 \<longrightarrow>
      GetToken w a authCode =
        (a, \<lparr>logged =
               [(''Call to %q successful'', [AVal (VString (endpoint a))]),
                (''Aqara response with code %v received with message %v'',
                 [AVal (VInt (Code response)), AVal (VString (MessageDetail response))]),
                (''Failed to do token request: %v'',
                 [AErr (Errorf ''request against Aqara API failed with code: %v''
                          [VInt (Code response)])])],
              sent = [sent_request w a (Token_request a authCode) False], printed = []\<rparr>))
   \<and> (decoded_reply w a Devices_request True responseBody response
        \<and> Code response \<noteq> 0 \<longrightarrow>
      GetDevices w a =
        (a, \<lparr>logged =
               [(''Call to %q successful'', [AVal (VString (endpoint a))]),
                (''Aqara response with code %v received with message %v'',
                 [AVal (VInt (Code response)), AVal (VString (MessageDetail response))]),
                (''Failed query devices: %v'',
                 [AErr (Errorf ''request against Aqara API failed with code: %v''
                          [VInt (Code response)])])],
              sent = [sent_request w a Devices_request True], printed = []\<rparr>))"
proof (intro conjI impI)
  assume "decoded_reply w a q authenticated responseBody response \<and> Code response \<noteq> 0"
  then show "apiCall w a q AqaraResponse_zero authenticated =
        (Some (Errorf ''request against Aqara API failed with code: %v'' [VInt (Code response)]),
         response,
         [(''Call to %q successful'', [AVal (VString (endpoint a))]),
          (''Aqara response with code %v received with message %v'',
           [AVal (VInt (Code response)), AVal (VString (MessageDetail response))])],
         [sent_request w a q authenticated])"
    using apiCall_decoded [of w a q authenticated responseBody response] by simp
next
  assume "decoded_reply w a (Token_request a authCode) False responseBody response
        \<and> Code response \<noteq> 0"
  then show "GetToken w a authCode =
        (a, \<lparr>logged =
               [(''Call to %q successful'', [AVal (VString (endpoint a))]),
                (''Aqara response with code %v received with message %v'',
                 [AVal (VInt (Code response)), AVal (VString (MessageDetail response))]),
                (''Failed to do token request: %v'',
                 [AErr (Errorf ''request against Aqara API failed with code: %v''
                          [VInt (Code response)])])],
              sent = [sent_request w a (Token_request a authCode) False], printed = []\<rparr>)"
    using apiCall_decoded [of w a "Token_request a authCode" False responseBody response]
    by (simp add: GetToken_def failed_def)
next
  assume "decoded_reply w a Devices_request True responseBody response
        \<and> Code response \<noteq> 0"
  then show "GetDevices w a =
        (a, \<lparr>logged =
               [(''Call to %q successful'', [AVal (VString (endpoint a))]),
                (''Aqara response with code %v received with message %v'',
                 [AVal (VInt (Code response)), AVal (VString (MessageDetail response))]),
                (''Failed query devices: %v'',
                 [AErr (Errorf ''request against Aqara API failed with code: %v''
                          [VInt (Code response)])])],
              sent = [sent_request w a Devices_request True], printed = []\<rparr>)"
    using apiCall_decoded [of w a Devices_request True responseBody response]
    by (simp add: GetDevices_def failed_def)
qed

theorem vendor_error_short_circuit_witness:
  "decoded_reply
     (example_world (reply [(''code'', JInt 302), (''messageDetail'', JString ''Missing parameter'')]))
     example_client (Token_request example_client ''123456'') False
     (JSON (JObject [(''code'', JInt 302), (''messageDetail'', JString ''Missing parameter'')]))
     (AqaraResponse_zero\<lparr>Code := 302, MessageDetail := ''Missing parameter''\<rparr>)
   \<and> fst (GetToken
       (example_world (reply [(''code'', JInt 302), (''messageDetail'', JString ''Missing parameter'')]))
       example_client ''123456'') = example_client"
proof -
  let ?w = "example_world (reply [(''code'', JInt 302), (''messageDetail'', JString ''Missing parameter'')])"
  have d: "decoded_reply ?w example_client (Token_request example_client ''123456'') False
     (JSON (JObject [(''code'', JInt 302), (''messageDetail'', JString ''Missing parameter'')]))
     (AqaraResponse_zero\<lparr>Code := 302, MessageDetail := ''Missing parameter''\<rparr>)"
    by (simp add: decoded_reply_def example_world_def reply_def decode_eval int64_def)
  have c: "Code (AqaraResponse_zero\<lparr>Code := 302, MessageDetail := ''Missing parameter''\<rparr>) \<noteq> 0"
    by simp
  from vendor_error_short_circuit [of ?w example_client _ _
      "JSON (JObject [(''code'', JInt 302), (''messageDetail'', JString ''Missing parameter'')])"
      "AqaraResponse_zero\<lparr>Code := 302, MessageDetail := ''Missing parameter''\<rparr>" "''123456''"]
    d c
  show ?thesis
    by simp
qed

text \<open>
  Claim C5 as stated fails in one point: two answers with the same code and different
  detail messages yield the same error, so the error does not carry the detail message.
\<close>

theorem vendor_error_detail_counterexample:
  "fst (apiCall
          (example_world (reply [(''code'', JInt 302), (''messageDetail'', JString ''Missing parameter'')]))
          example_client Devices_request AqaraResponse_zero True)
     = fst (apiCall
          (example_world (reply [(''code'', JInt 302), (''messageDetail'', JString ''Invalid sign'')]))
          example_client Devices_request AqaraResponse_zero True)
   \<and> MessageDetail (fst (snd (apiCall
          (example_world (reply [(''code'', JInt 302), (''messageDetail'', JString ''Missing parameter'')]))
          example_client Devices_request AqaraResponse_zero True)))
     \<noteq> MessageDetail (fst (snd (apiCall
          (example_world (reply [(''code'', JInt 302), (''messageDetail'', JString ''Invalid sign'')]))
          example_client Devices_request AqaraResponse_zero True)))"
  by (simp add: call_eval decode_eval int64_def)

lemma fieldFor_member: "fieldFor tbl names key = Some f \<Longrightarrow> f \<in> set names"
  by (auto simp: fieldFor_def find_Some_iff split: if_splits)

lemma decode_members_Code:
  "lacks tbl ''code'' members \<Longrightarrow>
     Code (fst (decode_members tbl AqaraResponse_fields AqaraResponse_set AqaraResponse_ok
                  members (r, err))) = Code r"
proof (induction members arbitrary: r err)
  case Nil
  show ?case by simp
next
  case (Cons m members)
  obtain key v where m: "m = (key, v)"
    by (cases m)
  from Cons.prems m have no: "fieldFor tbl AqaraResponse_fields key \<noteq> Some ''code''"
    and rest: "lacks tbl ''code'' members"
    by simp_all
  show ?case
  proof (cases "fieldFor tbl AqaraResponse_fields key")
    case None
    with m Cons.IH [OF rest] show ?thesis by simp
  next
    case (Some f)
    with no have "Code (AqaraResponse_set f v r) = Code r"
      by (simp add: AqaraResponse_set_def)
    with Some m Cons.IH [OF rest, of "AqaraResponse_set f v r"] show ?thesis by simp
  qed
qed

lemma lacks_result_member: "lacks tbl ''result'' members \<Longrightarrow> result_member tbl members = None"
  by (induction members) auto

text \<open>
  Claim C10, amended: when the transport answers 200 with a JSON object in which no
  member is matched with the field \<^verbatim>\<open>code\<close> and which decodes without a type error
  (as \<^verbatim>\<open>{}\<close> does), \<^verbatim>\<open>apiCall\<close>, called with a zeroed envelope as its callers do,
  returns no error and leaves the code at 0; the payload it hands over is the \<^verbatim>\<open>result\<close>
  member of the body (the last one, if there are several), and it is absent when no
  member is matched with the field \<^verbatim>\<open>result\<close>.
\<close>

theorem missing_code_is_success:
  assumes "url_error w (endpoint a) = None"
    and "Do w (sent_request w a q authenticated) = Response 200 (Inr (JSON (JObject members)))"
    and "lacks (foldTable w) ''code'' members"
    and "snd (Unmarshal_AqaraResponse (foldTable w) (JSON (JObject members)) AqaraResponse_zero)
           = None"
  shows "fst (apiCall w a q AqaraResponse_zero authenticated) = None
       \<and> Code (fst (snd (apiCall w a q AqaraResponse_zero authenticated))) = 0
       \<and> Result (fst (snd (apiCall w a q AqaraResponse_zero authenticated)))
           = result_member (foldTable w) members
       \<and> (lacks (foldTable w) ''result'' members \<longrightarrow>
            Result (fst (snd (apiCall w a q AqaraResponse_zero authenticated))) = None)"
proof -
  obtain response where u:
    "Unmarshal_AqaraResponse (foldTable w) (JSON (JObject members)) AqaraResponse_zero
       = (response, None)"
    using assms(4) by (cases "Unmarshal_AqaraResponse (foldTable w) (JSON (JObject members))
        AqaraResponse_zero") simp
  with assms(1,2) have d: "decoded_reply w a q authenticated (JSON (JObject members)) response"
    by (simp add: decoded_reply_def)
  have r: "response = fst (decode_members (foldTable w) AqaraResponse_fields AqaraResponse_set
      AqaraResponse_ok members (AqaraResponse_zero, None))"
    using u by simp
  have c: "Code response = 0"
    unfolding r using assms(3) by (simp add: decode_members_Code) (simp add: AqaraResponse_zero_def)
  have stored_last:
    "Result (fst (decode_members (foldTable w) AqaraResponse_fields AqaraResponse_set
                    AqaraResponse_ok ms (r, err)))
       = (case result_member (foldTable w) ms of
            Some payload \<Rightarrow> Some payload
          | None \<Rightarrow> Result r)"
    for ms r err
    proof (induction ms arbitrary: r err)
      case Nil
      show ?case by simp
    next
      case (Cons m ms)
      obtain key v where m: "m = (key, v)"
        by (cases m)
      show ?case
      proof (cases "fieldFor (foldTable w) AqaraResponse_fields key")
        case None
        with m Cons.IH [of r err] show ?thesis
          by (simp split: option.splits)
      next
        case (Some f)
        have stored:
          "Result (AqaraResponse_set g v r) = (if g = ''result'' then Some v else Result r)"
          for g by (simp add: AqaraResponse_set_def)
        from Some m
          Cons.IH [of "AqaraResponse_set f v r"
            "if err = None \<and> \<not> AqaraResponse_ok f v
             then Some (UnmarshalTypeError v f) else err"]
        show ?thesis
          by (simp add: stored split: option.splits)
      qed
    qed
  have p: "Result response = result_member (foldTable w) members"
    unfolding r
    by (simp add: stored_last AqaraResponse_zero_def split: option.splits)
  have n: "lacks (foldTable w) ''result'' members \<Longrightarrow> Result response = None"
    using p by (simp add: lacks_result_member)
  from c p n show ?thesis
    by (simp add: apiCall_decoded [OF d])
qed

text \<open>
  The theorem at two bodies without a \<^verbatim>\<open>code\<close> member: one with a request id and two
  \<^verbatim>\<open>result\<close> members, of which the caller gets the last, and the empty object, for
  which the payload is absent.
\<close>

theorem missing_code_is_success_witness:
  "lacks (foldTable (example_world (reply
       [(''requestId'', JString ''r1''), (''result'', JNull),
        (''result'', JObject [(''accessToken'', JString ''at1'')])])))
     ''code''
     [(''requestId'', JString ''r1''), (''result'', JNull),
      (''result'', JObject [(''accessToken'', JString ''at1'')])]
   \<and> fst (apiCall (example_world (reply
       [(''requestId'', JString ''r1''), (''result'', JNull),
        (''result'', JObject [(''accessToken'', JString ''at1'')])]))
       example_client Devices_request AqaraResponse_zero True) = None
   \<and> Code (fst (snd (apiCall (example_world (reply
       [(''requestId'', JString ''r1''), (''result'', JNull),
        (''result'', JObject [(''accessToken'', JString ''at1'')])]))
       example_client Devices_request AqaraResponse_zero True))) = 0
   \<and> Result (fst (snd (apiCall (example_world (reply
       [(''requestId'', JString ''r1''), (''result'', JNull),
        (''result'', JObject [(''accessToken'', JString ''at1'')])]))
       example_client Devices_request AqaraResponse_zero True)))
       = Some (JObject [(''accessToken'', JString ''at1'')])
   \<and> lacks (foldTable (example_world (reply []))) ''code'' []
   \<and> lacks (foldTable (example_world (reply []))) ''result'' []
   \<and> fst (apiCall (example_world (reply [])) example_client Devices_request
            AqaraResponse_zero True) = None
   \<and> Code (fst (snd (apiCall (example_world (reply [])) example_client Devices_request
            AqaraResponse_zero True))) = 0
   \<and> Result (fst (snd (apiCall (example_world (reply [])) example_client Devices_request
            AqaraResponse_zero True))) = None"
proof -
  let ?ms = "[(''requestId'', JString ''r1''), (''result'', JNull),
      (''result'', JObject [(''accessToken'', JString ''at1'')])]"
  let ?v = "example_world (reply ?ms)"
  let ?w = "example_world (reply [])"
  have tbl: "foldTable ?v = Latin1_fold" "foldTable ?w = Latin1_fold"
    by (simp_all add: example_world_def)
  have g1: "url_error ?v (endpoint example_client) = None"
    by (simp add: example_world_def)
  have g2: "Do ?v (sent_request ?v example_client Devices_request True)
       = Response 200 (Inr (JSON (JObject ?ms)))"
    by (simp add: example_world_def reply_def)
  have g3: "lacks (foldTable ?v) ''code'' ?ms"
    unfolding tbl by (simp add: fieldFor_def AqaraResponse_fields_def)
  have g4: "snd (Unmarshal_AqaraResponse (foldTable ?v) (JSON (JObject ?ms)) AqaraResponse_zero)
           = None"
    unfolding tbl by (simp add: decode_eval)
  have g5: "result_member (foldTable ?v) ?ms = Some (JObject [(''accessToken'', JString ''at1'')])"
    unfolding tbl by (simp add: fieldFor_def AqaraResponse_fields_def)
  have h1: "url_error ?w (endpoint example_client) = None"
    by (simp add: example_world_def)
  have h2: "Do ?w (sent_request ?w example_client Devices_request True)
       = Response 200 (Inr (JSON (JObject [])))"
    by (simp add: example_world_def reply_def)
  have h3: "lacks (foldTable ?w) ''code'' []" and h5: "lacks (foldTable ?w) ''result'' []"
    by simp_all
  have h4: "snd (Unmarshal_AqaraResponse (foldTable ?w) (JSON (JObject [])) AqaraResponse_zero)
           = None"
    by simp
  have run: "Result (fst (snd (apiCall ?v example_client Devices_request AqaraResponse_zero
      True))) = Some (JObject [(''accessToken'', JString ''at1'')])"
    by (simp add: call_eval decode_eval)
  from missing_code_is_success [OF g1 g2 g3 g4] missing_code_is_success [OF h1 h2 h3 h4]
    g3 g5 h3 h5 run
  show ?thesis
    by simp
qed

text \<open>
  Claim C10 as stated fails for some objects without a \<^verbatim>\<open>code\<close> member: a
  \<^verbatim>\<open>message\<close> that is a number makes \<^verbatim>\<open>apiCall\<close> return the decoder's type error, and
  a \<^verbatim>\<open>result\<close> member is handed to the caller, so the payload is not absent.
\<close>

theorem missing_code_is_success_counterexample:
  "fst (apiCall (example_world (reply [(''message'', JInt 5)])) example_client Devices_request
          AqaraResponse_zero True)
     = Some (UnmarshalTypeError (JInt 5) ''message'')
   \<and> Result (fst (snd (apiCall (example_world (reply [(''result'', JObject [])])) example_client
          Devices_request AqaraResponse_zero True)))
     = Some (JObject [])"
  by (simp add: call_eval decode_eval)

end
